theory Spec2Isabelle
  imports Main "HOL-Library.AList"
begin

section \<open>Python values\<close>

text \<open>
  The program is dynamically typed: every value it reads from the upstream service or from
  a file is a decoded JSON value. \<open>JObj\<close> holds the items of a Python dict in insertion
  order (its keys are pairwise distinct); numbers are integers, as every numeric field the
  queries of this program select (\<open>mediaId\<close>, \<open>userId\<close>, \<open>score(format: POINT_100)\<close>) is
  an \<open>Int\<close> of the GraphQL schema.
\<close>

datatype json =
    JNull
  | JBool bool
  | JNum int
  | JStr string
  | JArr "json list"
  | JObj "(string \<times> json) list"

datatype request_exception =
    ConnectionError
  | HTTPError int
  | InvalidJSONError

text \<open>
  The exceptions of \<open>anilist_api.py\<close> and the built-in exceptions the code can raise.
  \<open>AnilistRequestError\<close> carries the failure it wraps (\<open>raise ... from e\<close>); the two
  classification errors carry \<open>users_in_batch\<close>, the list their message prints.
\<close>

datatype error =
    AnilistRequestError "request_exception option"
  | AnilistPrivateUser "json list"
  | AnilistUserNotFound "json list"
  | UnboundLocalError
  | TypeError
  | KeyError
  | IndexError
  | AttributeError
  | ZeroDivisionError
  | ValueError

subsection \<open>The operations of Python the code applies to decoded values\<close>

text \<open>An exception ends the computation it is raised in: the rest runs on a result only.\<close>

definition try_bind :: "error + 'a \<Rightarrow> ('a \<Rightarrow> error + 'b) \<Rightarrow> error + 'b" where
  "try_bind r f = (case r of Inl e \<Rightarrow> Inl e | Inr x \<Rightarrow> f x)"

definition startswith :: "string \<Rightarrow> string \<Rightarrow> bool" where
  "startswith s p = (take (length p) s = p)"

fun contains_str :: "string \<Rightarrow> string \<Rightarrow> bool" where
  "contains_str p [] = (p = [])"
| "contains_str p (c # cs) = (startswith (c # cs) p \<or> contains_str p cs)"

text \<open>\<open>key in v\<close> for a string \<open>key\<close>.\<close>

definition py_in :: "string \<Rightarrow> json \<Rightarrow> error + bool" where
  "py_in key v =
     (case v of
        JObj items \<Rightarrow> Inr (key \<in> set (map fst items))
      | JArr xs \<Rightarrow> Inr (JStr key \<in> set xs)
      | JStr s \<Rightarrow> Inr (contains_str key s)
      | _ \<Rightarrow> Inl TypeError)"

text \<open>\<open>v[key]\<close> for a string \<open>key\<close>.\<close>

definition py_getitem :: "json \<Rightarrow> string \<Rightarrow> error + json" where
  "py_getitem v key =
     (case v of
        JObj items \<Rightarrow> (case map_of items key of None \<Rightarrow> Inl KeyError | Some x \<Rightarrow> Inr x)
      | _ \<Rightarrow> Inl TypeError)"

text \<open>\<open>v[0]\<close>. No key of a decoded JSON object is the integer 0.\<close>

definition py_getitem0 :: "json \<Rightarrow> error + json" where
  "py_getitem0 v =
     (case v of
        JArr [] \<Rightarrow> Inl IndexError
      | JArr (x # _) \<Rightarrow> Inr x
      | JStr [] \<Rightarrow> Inl IndexError
      | JStr (c # _) \<Rightarrow> Inr (JStr [c])
      | JObj _ \<Rightarrow> Inl KeyError
      | _ \<Rightarrow> Inl TypeError)"

text \<open>\<open>v.get(key, default)\<close>: only a dict has the method.\<close>

definition py_get :: "json \<Rightarrow> string \<Rightarrow> json \<Rightarrow> error + json" where
  "py_get v key dflt =
     (case v of
        JObj items \<Rightarrow> (case map_of items key of None \<Rightarrow> Inr dflt | Some x \<Rightarrow> Inr x)
      | _ \<Rightarrow> Inl AttributeError)"

text \<open>\<open>for x in v\<close>: the elements of a list, the keys of a dict, the characters of a string.\<close>

definition py_iter :: "json \<Rightarrow> error + json list" where
  "py_iter v =
     (case v of
        JArr xs \<Rightarrow> Inr xs
      | JObj items \<Rightarrow> Inr (map (\<lambda>kv. JStr (fst kv)) items)
      | JStr s \<Rightarrow> Inr (map (\<lambda>c. JStr [c]) s)
      | _ \<Rightarrow> Inl TypeError)"

text \<open>Truth value of a value in a condition (\<open>if not v\<close>, \<open>a or b\<close>).\<close>

definition py_truthy :: "json \<Rightarrow> bool" where
  "py_truthy v =
     (case v of
        JNull \<Rightarrow> False
      | JBool b \<Rightarrow> b
      | JNum n \<Rightarrow> n \<noteq> 0
      | JStr s \<Rightarrow> s \<noteq> []
      | JArr xs \<Rightarrow> xs \<noteq> []
      | JObj items \<Rightarrow> items \<noteq> [])"


subsection \<open>Decimal rendering of integers (\<open>str(n)\<close>, \<open>f'{n}'\<close>)\<close>

definition digit_char :: "nat \<Rightarrow> char" where
  "digit_char d = char_of (48 + d)"

fun show_nat :: "nat \<Rightarrow> string" where
  "show_nat n = (if n < 10 then [digit_char n] else show_nat (n div 10) @ [digit_char (n mod 10)])"

declare show_nat.simps [simp del]

definition show_int :: "int \<Rightarrow> string" where
  "show_int i = (if i < 0 then CHR ''-'' # show_nat (nat (- i)) else show_nat (nat i))"

section \<open>The request executor: \<open>AnilistAPI._make_request\<close>\<close>

text \<open>
  What one \<open>requests.post\<close> gives: no response at all (the call raises a
  \<open>RequestException\<close>: connection error, timeout), or a response with its status code and
  its body, \<open>None\<close> when the text is not valid JSON. The upstream service is a function
  from the attempt number to what that attempt meets. The exception \<open>response.json()\<close>
  raises for such a body is a \<open>RequestException\<close> and a \<open>json.JSONDecodeError\<close> at once,
  as in \<open>requests\<close> 2.27 and later, so both handlers of the source catch it. Rate limiting and logging only
  delay and print; they are left out. The query text does not reach any decision of the
  client and is left out as well; the variable bindings are kept.
\<close>

record http_response =
  status_code :: int
  body :: "json option"

datatype attempt_outcome =
    NoResponse
  | Response http_response

type_synonym variables = "(string \<times> json) list"

definition max_retries :: nat where
  "max_retries = 10"

text \<open>\<open>response.raise_for_status()\<close>: an \<open>HTTPError\<close> for a 4xx or 5xx status.\<close>

definition raise_for_status :: "http_response \<Rightarrow> request_exception + unit" where
  "raise_for_status r =
     (if 400 \<le> status_code r \<and> status_code r < 600 then Inl (HTTPError (status_code r))
      else Inr ())"

text \<open>Lines 77 and 80: the values of the variables whose name starts with \<open>username\<close> or \<open>id\<close>.\<close>

definition users_in_batch :: "variables \<Rightarrow> json list" where
  "users_in_batch variables =
     map snd (filter (\<lambda>kv. startswith (fst kv) ''username'' \<or> startswith (fst kv) ''id'') variables)"

text \<open>
  Lines 74 to 81, on the decoded body \<open>data\<close> of a 404 response: \<open>Inl\<close> is the exception
  leaving the handler, \<open>Inr ()\<close> falls through to the retry code.
\<close>

definition classify_errors :: "variables \<Rightarrow> json \<Rightarrow> error + unit" where
  "classify_errors variables data =
     (case py_in ''errors'' data of
        Inl e \<Rightarrow> Inl e
      | Inr False \<Rightarrow> Inr ()
      | Inr True \<Rightarrow>
          (case py_getitem data ''errors'' of
             Inl e \<Rightarrow> Inl e
           | Inr errs \<Rightarrow>
               (case py_getitem0 errs of
                  Inl e \<Rightarrow> Inl e
                | Inr first \<Rightarrow>
                    (case py_get first ''message'' (JStr []) of
                       Inl e \<Rightarrow> Inl e
                     | Inr error_message \<Rightarrow>
                         if error_message = JStr ''Private User''
                         then Inl (AnilistPrivateUser (users_in_batch variables))
                         else if error_message = JStr ''User not found''
                         then Inl (AnilistUserNotFound (users_in_batch variables))
                         else Inr ()))))"

text \<open>
  One pass through the loop body. The local variables \<open>response\<close> and \<open>data\<close> keep their
  binding from an earlier pass (\<open>None\<close>: not yet bound), and the handler reads them
  whatever the \<open>try\<close> block reached: reading an unbound local raises
  \<open>UnboundLocalError\<close>.
\<close>

datatype step =
    Return json
  | Raise error
  | Retry request_exception "http_response option" "json option"

definition except_handler ::
  "variables \<Rightarrow> request_exception \<Rightarrow> http_response option \<Rightarrow> json option \<Rightarrow> step" where
  "except_handler variables e response data =
     (case response of
        None \<Rightarrow> Raise UnboundLocalError
      | Some r \<Rightarrow>
          if status_code r = 404 then
            (let data' = (case body r of Some j \<Rightarrow> Some j | None \<Rightarrow> data) in
             case data' of
               None \<Rightarrow> Raise UnboundLocalError
             | Some d \<Rightarrow>
                 (case classify_errors variables d of
                    Inl err \<Rightarrow> Raise err
                  | Inr _ \<Rightarrow> Retry e response data'))
          else Retry e response data)"

definition attempt_step ::
  "variables \<Rightarrow> http_response option \<Rightarrow> json option \<Rightarrow> attempt_outcome \<Rightarrow> step" where
  "attempt_step variables response data outcome =
     (case outcome of
        NoResponse \<Rightarrow> except_handler variables ConnectionError response data
      | Response r \<Rightarrow>
          (case raise_for_status r of
             Inl e \<Rightarrow> except_handler variables e (Some r) data
           | Inr _ \<Rightarrow>
               (case body r of
                  Some j \<Rightarrow> Return j
                | None \<Rightarrow> except_handler variables InvalidJSONError (Some r) data)))"

text \<open>
  What a call leaves behind besides its result: the number of requests posted and the
  back-off sleeps, in seconds, in the order they were taken.
\<close>

record request_trace =
  posted :: nat
  slept :: "int list"

function make_request_loop ::
  "variables \<Rightarrow> (nat \<Rightarrow> attempt_outcome) \<Rightarrow> nat \<Rightarrow> http_response option \<Rightarrow> json option \<Rightarrow>
   int list \<Rightarrow> (error + json) \<times> request_trace" where
  "make_request_loop variables upstream attempt response data sl =
     (if max_retries \<le> attempt
      then (Inl (AnilistRequestError None), \<lparr>posted = attempt, slept = sl\<rparr>)
      else
        (case attempt_step variables response data (upstream attempt) of
           Return j \<Rightarrow> (Inr j, \<lparr>posted = attempt + 1, slept = sl\<rparr>)
         | Raise err \<Rightarrow> (Inl err, \<lparr>posted = attempt + 1, slept = sl\<rparr>)
         | Retry e response' data' \<Rightarrow>
             if attempt < max_retries - 1
             then make_request_loop variables upstream (attempt + 1) response' data'
                    (sl @ [60 * (int attempt + 1)])
             else (Inl (AnilistRequestError (Some e)), \<lparr>posted = attempt + 1, slept = sl\<rparr>)))"
  by pat_completeness auto
termination
  by (relation "measure (\<lambda>(variables, upstream, attempt, response, data, sl). max_retries - attempt)")
     auto

declare make_request_loop.simps [simp del]

definition make_request :: "variables \<Rightarrow> (nat \<Rightarrow> attempt_outcome) \<Rightarrow> (error + json) \<times> request_trace" where
  "make_request variables upstream = make_request_loop variables upstream 0 None None []"

section \<open>The result decoder: \<open>AnilistAPI.fetchCompletedAnime\<close>\<close>

record anime_entry =
  mediaId :: json
  title_romaji :: json
  score :: json

text \<open>
  A dict keyed by values (the users of a batch). A list or a dict is not hashable; as keys,
  \<open>True\<close> and \<open>1\<close> (\<open>False\<close> and \<open>0\<close>) are the same key. Assigning to a key the dict
  has keeps the key and its place; a new key goes last.
\<close>

definition hashable :: "json \<Rightarrow> bool" where
  "hashable v = (case v of JArr _ \<Rightarrow> False | JObj _ \<Rightarrow> False | _ \<Rightarrow> True)"

definition key_eq :: "json \<Rightarrow> json \<Rightarrow> bool" where
  "key_eq a b =
     (case (a, b) of
        (JBool x, JNum n) \<Rightarrow> n = (if x then 1 else 0)
      | (JNum n, JBool x) \<Rightarrow> n = (if x then 1 else 0)
      | _ \<Rightarrow> a = b)"

fun dict_update :: "json \<Rightarrow> 'v \<Rightarrow> (json \<times> 'v) list \<Rightarrow> (json \<times> 'v) list" where
  "dict_update k v [] = [(k, v)]"
| "dict_update k v (p # ps) =
     (if key_eq (fst p) k then (fst p, v) # ps else p # dict_update k v ps)"

definition dict_set :: "(json \<times> 'v) list \<Rightarrow> json \<Rightarrow> 'v \<Rightarrow> error + (json \<times> 'v) list" where
  "dict_set d k v = (if hashable k then Inr (dict_update k v d) else Inl TypeError)"


text \<open>\<open>enumerate(xs, 1)\<close>.\<close>

definition enumerate1 :: "'a list \<Rightarrow> (nat \<times> 'a) list" where
  "enumerate1 xs = zip [1..<Suc (length xs)] xs"

text \<open>Lines 164 to 175, the bindings only: \<open>username{i}\<close> or \<open>id{i}\<close> bound to the i-th user.\<close>

definition user_variables :: "bool \<Rightarrow> json list \<Rightarrow> variables" where
  "user_variables is_username users =
     map (\<lambda>iu. ((if is_username then ''username'' else ''id'') @ show_nat (fst iu), snd iu))
       (enumerate1 users)"

text \<open>Lines 196 to 200: the fields are read in the order the call lists them.\<close>

definition decode_entry :: "json \<Rightarrow> error + anime_entry" where
  "decode_entry entry =
     try_bind (py_getitem entry ''mediaId'') (\<lambda>m.
     try_bind (py_getitem entry ''media'') (\<lambda>media.
     try_bind (py_getitem media ''title'') (\<lambda>title.
     try_bind (py_getitem title ''romaji'') (\<lambda>romaji.
     try_bind (py_getitem entry ''score'') (\<lambda>s.
     Inr \<lparr>mediaId = m, title_romaji = romaji, score = s\<rparr>)))))"

text \<open>Line 195, \<open>for entry in list_entry['entries']\<close>, appending to \<open>entries\<close>.\<close>

fun decode_entries :: "json list \<Rightarrow> anime_entry list \<Rightarrow> error + anime_entry list" where
  "decode_entries [] entries = Inr entries"
| "decode_entries (entry # rest) entries =
     (case decode_entry entry of
        Inl e \<Rightarrow> Inl e
      | Inr a \<Rightarrow> decode_entries rest (entries @ [a]))"

text \<open>Line 194, \<open>for list_entry in user_data['lists']\<close>.\<close>

fun decode_lists :: "json list \<Rightarrow> anime_entry list \<Rightarrow> error + anime_entry list" where
  "decode_lists [] entries = Inr entries"
| "decode_lists (list_entry # rest) entries =
     (case try_bind (try_bind (py_getitem list_entry ''entries'') py_iter)
             (\<lambda>es. decode_entries es entries) of
        Inl e \<Rightarrow> Inl e
      | Inr entries' \<Rightarrow> decode_lists rest entries')"

text \<open>Line 189, \<open>response['data'][f'u{i}']\<close>.\<close>

definition user_data_of :: "json \<Rightarrow> nat \<Rightarrow> error + json" where
  "user_data_of response i =
     try_bind (py_getitem response ''data'') (\<lambda>d. py_getitem d (''u'' @ show_nat i))"

text \<open>Lines 193 to 200 for one user whose data is not null.\<close>

definition decode_user_data :: "json \<Rightarrow> error + anime_entry list" where
  "decode_user_data user_data =
     try_bind (try_bind (py_getitem user_data ''lists'') py_iter) (\<lambda>ls. decode_lists ls [])"

text \<open>Lines 188 to 201, the loop over \<open>enumerate(users, 1)\<close> filling \<open>result\<close>.\<close>

fun decode_users ::
  "json \<Rightarrow> (nat \<times> json) list \<Rightarrow> (json \<times> anime_entry list) list \<Rightarrow>
   error + (json \<times> anime_entry list) list" where
  "decode_users response [] result = Inr result"
| "decode_users response (iu # rest) result =
     (case user_data_of response (fst iu) of
        Inl e \<Rightarrow> Inl e
      | Inr user_data \<Rightarrow>
          if user_data = JNull then decode_users response rest result
          else
            (case try_bind (decode_user_data user_data) (dict_set result (snd iu)) of
               Inl e \<Rightarrow> Inl e
             | Inr result' \<Rightarrow> decode_users response rest result'))"

text \<open>
  The arguments are Python values: \<open>JNull\<close> is \<open>None\<close>, \<open>isinstance(x, str)\<close> holds of a
  \<open>JStr\<close>, \<open>isinstance(x, int)\<close> of a \<open>JNum\<close> or a \<open>JBool\<close>. \<open>usernames or userids\<close>
  is \<open>usernames\<close> when that is truthy; enumerating \<open>None\<close> raises \<open>TypeError\<close>.
\<close>

definition fetchCompletedAnime ::
  "json \<Rightarrow> json \<Rightarrow> (nat \<Rightarrow> attempt_outcome) \<Rightarrow> error + (json \<times> anime_entry list) list" where
  "fetchCompletedAnime usernames userids upstream =
     (if (usernames = JNull \<and> userids = JNull) \<or> (usernames \<noteq> JNull \<and> userids \<noteq> JNull)
      then Inl ValueError
      else
        (let usernames' = (case usernames of JStr _ \<Rightarrow> JArr [usernames] | _ \<Rightarrow> usernames);
             userids' = (case userids of
                           JNum _ \<Rightarrow> JArr [userids]
                         | JBool _ \<Rightarrow> JArr [userids]
                         | _ \<Rightarrow> userids);
             users = (if py_truthy usernames' then usernames' else userids');
             is_username = (usernames' \<noteq> JNull)
         in case py_iter users of
              Inl e \<Rightarrow> Inl e
            | Inr us \<Rightarrow>
                (case fst (make_request (user_variables is_username us) upstream) of
                   Inl e \<Rightarrow> Inl e
                 | Inr response \<Rightarrow> decode_users response (enumerate1 us) [])))"

section \<open>The pagination crawler: \<open>AnilistAPI.fetchAnimeCompleters\<close>\<close>











section \<open>The batch pipeline: \<open>collect_userdata.py\<close>\<close>

text \<open>
  \<open>str(x)\<close>. The text Python prints for a list or a dict is \<open>repr\<close>'s, which this
  development does not define: it is a parameter, and nothing below depends on it.
\<close>

definition py_str :: "(json \<Rightarrow> string) \<Rightarrow> json \<Rightarrow> string" where
  "py_str repr v =
     (case v of
        JNull \<Rightarrow> ''None''
      | JBool b \<Rightarrow> (if b then ''True'' else ''False'')
      | JNum n \<Rightarrow> show_int n
      | JStr s \<Rightarrow> s
      | _ \<Rightarrow> repr v)"

text \<open>
  The ratings table: a \<open>defaultdict(list)\<close> from \<open>str(mediaId)\<close> to the list of the
  one-key dicts \<open>{str(user_id): score}\<close>, in insertion order.
\<close>

type_synonym ratings = "(string \<times> json list) list"

text \<open>\<open>ratings[key].append(x)\<close>: a key the table lacks enters last with an empty list.\<close>

definition ratings_append :: "ratings \<Rightarrow> string \<Rightarrow> json \<Rightarrow> ratings" where
  "ratings_append ratings key x = AList.map_default key [x] (\<lambda>l. l @ [x]) ratings"

text \<open>Lines 44 and 45, for one user of the batch.\<close>

definition store_user :: "(json \<Rightarrow> string) \<Rightarrow> json \<Rightarrow> anime_entry list \<Rightarrow> ratings \<Rightarrow> ratings" where
  "store_user repr user_id user_anime ratings =
     foldl (\<lambda>r anime. ratings_append r (py_str repr (mediaId anime))
                         (JObj [(py_str repr user_id, score anime)]))
       ratings user_anime"

text \<open>Lines 43 to 45, \<open>for user_id, user_anime in batch_anime.items()\<close>.\<close>

definition store_batch :: "(json \<Rightarrow> string) \<Rightarrow> (json \<times> anime_entry list) list \<Rightarrow> ratings \<Rightarrow> ratings" where
  "store_batch repr batch_anime ratings =
     foldl (\<lambda>r ua. store_user repr (fst ua) (snd ua) r) ratings batch_anime"

text \<open>
  \<open>math.ceil(len(user_ids) / batch_size)\<close>, a float division: it raises for a zero batch
  size, and is the integer ceiling at the sizes a float holds exactly. A batch size below
  zero gives no batch at all.
\<close>

definition total_batches :: "nat \<Rightarrow> int \<Rightarrow> error + nat" where
  "total_batches len batch_size =
     (if batch_size = 0 then Inl ZeroDivisionError
      else Inr (nat (- ((- int len) div batch_size))))"

definition end_idx :: "nat \<Rightarrow> nat \<Rightarrow> nat \<Rightarrow> nat" where
  "end_idx batch_num batch_size len = min ((batch_num + 1) * batch_size) len"

text \<open>\<open>xs[a:b]\<close> for indices that are not negative.\<close>

definition slice :: "'a list \<Rightarrow> nat \<Rightarrow> nat \<Rightarrow> 'a list" where
  "slice xs a b = take (b - a) (drop a xs)"

text \<open>
  What a run of the generator \<open>fetch_and_store_ratings\<close> gives a consumer that takes
  every value: the triples yielded, each with the table as it stands at that yield; the
  table as the generator leaves it; the batch at which line 41 returned, if it did; and
  the exception that left the generator, if one did. The request of batch \<open>b\<close> meets
  \<open>upstream b\<close>.
\<close>

record pipeline_run =
  yielded :: "(ratings \<times> json list \<times> nat) list"
  final_ratings :: ratings
  stopped_at :: "nat option"
  raised :: "error option"

function fetch_loop ::
  "(json \<Rightarrow> string) \<Rightarrow> json list \<Rightarrow> nat \<Rightarrow> nat \<Rightarrow> (nat \<Rightarrow> nat \<Rightarrow> attempt_outcome) \<Rightarrow>
   nat \<Rightarrow> ratings \<Rightarrow> pipeline_run" where
  "fetch_loop repr user_ids batch_size n_batches upstream batch_num ratings =
     (if n_batches \<le> batch_num
      then \<lparr>yielded = [], final_ratings = ratings, stopped_at = None, raised = None\<rparr>
      else
        (let start_idx = batch_num * batch_size;
             batch = slice user_ids start_idx (end_idx batch_num batch_size (length user_ids))
         in case fetchCompletedAnime JNull (JArr batch) (upstream batch_num) of
              Inl (AnilistPrivateUser _) \<Rightarrow>
                fetch_loop repr user_ids batch_size n_batches upstream (batch_num + 1) ratings
            | Inl (AnilistUserNotFound _) \<Rightarrow>
                fetch_loop repr user_ids batch_size n_batches upstream (batch_num + 1) ratings
            | Inl (AnilistRequestError _) \<Rightarrow>
                \<lparr>yielded = [], final_ratings = ratings, stopped_at = Some batch_num, raised = None\<rparr>
            | Inl e \<Rightarrow>
                \<lparr>yielded = [], final_ratings = ratings, stopped_at = None, raised = Some e\<rparr>
            | Inr batch_anime \<Rightarrow>
                (let ratings' = store_batch repr batch_anime ratings;
                     more = fetch_loop repr user_ids batch_size n_batches upstream (batch_num + 1) ratings'
                 in if (batch_num + 1) mod 20 = 0 \<or> batch_num = n_batches - 1
                    then more\<lparr>yielded :=
                           (ratings', drop (end_idx batch_num batch_size (length user_ids)) user_ids,
                            batch_num) # yielded more\<rparr>
                    else more)))"
  by pat_completeness auto
termination
  by (relation "measure (\<lambda>(repr, user_ids, batch_size, n_batches, upstream, batch_num, ratings).
                  n_batches - batch_num)") auto

declare fetch_loop.simps [simp del]

definition fetch_and_store_ratings ::
  "(json \<Rightarrow> string) \<Rightarrow> json list \<Rightarrow> (nat \<Rightarrow> nat \<Rightarrow> attempt_outcome) \<Rightarrow> int \<Rightarrow> pipeline_run" where
  "fetch_and_store_ratings repr user_ids upstream batch_size =
     (case total_batches (length user_ids) batch_size of
        Inl e \<Rightarrow> \<lparr>yielded = [], final_ratings = [], stopped_at = None, raised = Some e\<rparr>
      | Inr n_batches \<Rightarrow> fetch_loop repr user_ids (nat batch_size) n_batches upstream 0 [])"

subsection \<open>Checkpoint and result files\<close>

text \<open>
  A file holds text: \<open>Document j\<close> is the text \<open>json.dump\<close> writes for \<open>j\<close>, which
  \<open>json.load\<close> reads back as \<open>j\<close>; \<open>Garbage\<close> is text that is not JSON. A path the
  file system does not map is a file that does not exist.
\<close>

datatype file_content =
    Garbage
  | Document json

type_synonym files = "string \<rightharpoonup> file_content"

text \<open>
  \<open>defaultdict(list, v)\<close>, as the items of the mapping it builds. An object gives its own
  items; \<open>None\<close>, a number or a boolean is not iterable; a string is a sequence of
  one-character strings, none of them a key-value pair. A non-empty array of pairs
  builds a dict whose keys need not be strings: that case is outside this development
  and marked so.
\<close>

datatype 'a modelled =
    Unmodelled
  | Modelled 'a

definition defaultdict_list :: "json \<Rightarrow> (error + (string \<times> json) list) modelled" where
  "defaultdict_list v =
     (case v of
        JObj items \<Rightarrow> Modelled (Inr items)
      | JArr [] \<Rightarrow> Modelled (Inr [])
      | JArr (_ # _) \<Rightarrow> Unmodelled
      | JStr [] \<Rightarrow> Modelled (Inr [])
      | JStr (_ # _) \<Rightarrow> Modelled (Inl ValueError)
      | _ \<Rightarrow> Modelled (Inl TypeError))"

text \<open>
  \<open>load_checkpoint\<close>: \<open>None\<close> for a missing file or text that is not JSON; any other
  exception (a missing member, a document that is not an object) is not caught.
\<close>

definition load_checkpoint ::
  "files \<Rightarrow> string \<Rightarrow> (error + ((string \<times> json) list \<times> json \<times> json) option) modelled" where
  "load_checkpoint fs checkpoint_file =
     (case fs checkpoint_file of
        None \<Rightarrow> Modelled (Inr None)
      | Some Garbage \<Rightarrow> Modelled (Inr None)
      | Some (Document checkpoint_data) \<Rightarrow>
          (case py_getitem checkpoint_data ''ratings'' of
             Inl e \<Rightarrow> Modelled (Inl e)
           | Inr r \<Rightarrow>
               (case defaultdict_list r of
                  Unmodelled \<Rightarrow> Unmodelled
                | Modelled (Inl e) \<Rightarrow> Modelled (Inl e)
                | Modelled (Inr ratings) \<Rightarrow>
                    Modelled
                      (try_bind (py_getitem checkpoint_data ''remaining_users'') (\<lambda>remaining_users.
                       try_bind (py_getitem checkpoint_data ''last_batch'') (\<lambda>last_batch.
                       Inr (Some (ratings, remaining_users, last_batch))))))))"

definition save_checkpoint :: "(string \<times> json) list \<Rightarrow> json \<Rightarrow> json \<Rightarrow> string \<Rightarrow> files \<Rightarrow> files" where
  "save_checkpoint ratings remaining_users last_batch checkpoint_file fs =
     fs(checkpoint_file \<mapsto>
          Document (JObj [(''ratings'', JObj ratings),
                          (''remaining_users'', remaining_users),
                          (''last_batch'', last_batch)]))"

definition save_results :: "(string \<times> json) list \<Rightarrow> string \<Rightarrow> files \<Rightarrow> files" where
  "save_results ratings output_file fs = fs(output_file \<mapsto> Document (JObj ratings))"

subsection \<open>\<open>main\<close>, from the fetch loop on (lines 103 to 112)\<close>

text \<open>
  \<open>main\<close> after the initial data is loaded: \<open>ratings\<close> and \<open>user_ids\<close> are what the
  user-id list or the checkpoint gave, \<open>checkpoint_file\<close> is \<open>None\<close> when the run was
  started from a user-id list.
\<close>

record args =
  checkpoint_file :: "string option"
  ratings_out :: string
  batch_size :: int

text \<open>\<open>ratings.update(updated_ratings)\<close>, the lists taken as the values they hold now.\<close>

definition ratings_update :: "(string \<times> json) list \<Rightarrow> ratings \<Rightarrow> (string \<times> json) list" where
  "ratings_update ratings updated_ratings =
     foldl (\<lambda>r kl. AList.update (fst kl) (JArr (snd kl)) r) ratings updated_ratings"

text \<open>Lines 105 to 108, one pass of the loop over the triples the generator yields.\<close>

definition on_yield ::
  "args \<Rightarrow> (string \<times> json) list \<times> files \<Rightarrow> ratings \<times> json list \<times> nat \<Rightarrow>
   (string \<times> json) list \<times> files" where
  "on_yield a st y =
     (let ratings = ratings_update (fst st) (fst y)
      in (ratings,
          case checkpoint_file a of
            None \<Rightarrow> snd st
          | Some file \<Rightarrow>
              if file = [] then snd st
              else save_checkpoint ratings (JArr (fst (snd y))) (JNum (int (snd (snd y)))) file (snd st)))"

text \<open>
  \<open>dict(ratings)\<close> at line 50 copies the table, not its lists: once a triple has been
  taken, the lists under the keys of that triple are the generator's own lists, and what
  the generator appends to them later shows in \<open>main\<close>'s table too. The keys of the last
  triple are the keys shared so; a key the generator adds after its last yield never
  reaches \<open>main\<close>.
\<close>

definition shared_keys :: "pipeline_run \<Rightarrow> string list" where
  "shared_keys run = (case yielded run of [] \<Rightarrow> [] | _ \<Rightarrow> map fst (fst (last (yielded run))))"

definition resolve_shared :: "pipeline_run \<Rightarrow> (string \<times> json) list \<Rightarrow> (string \<times> json) list" where
  "resolve_shared run ratings =
     ratings_update ratings (filter (\<lambda>kl. fst kl \<in> set (shared_keys run)) (final_ratings run))"

text \<open>
  The outcome of \<open>main\<close>: the files it leaves and the exception that ended it, if one
  did. The process exits with status 0 when \<open>main\<close> returns and 1 when an exception
  leaves it.
\<close>

record outcome =
  files_left :: files
  uncaught :: "error option"

definition exit_status :: "outcome \<Rightarrow> int" where
  "exit_status out = (case uncaught out of None \<Rightarrow> 0 | Some _ \<Rightarrow> 1)"

definition main ::
  "(json \<Rightarrow> string) \<Rightarrow> args \<Rightarrow> (string \<times> json) list \<Rightarrow> json list \<Rightarrow> files \<Rightarrow>
   (nat \<Rightarrow> nat \<Rightarrow> attempt_outcome) \<Rightarrow> outcome" where
  "main repr a ratings user_ids fs upstream =
     (let run = fetch_and_store_ratings repr user_ids upstream (batch_size a);
          st = foldl (on_yield a) (ratings, fs) (yielded run)
      in case raised run of
           Some e \<Rightarrow> \<lparr>files_left = snd st, uncaught = Some e\<rparr>
         | None \<Rightarrow>
             \<lparr>files_left = save_results (resolve_shared run (fst st)) (ratings_out a) (snd st),
              uncaught = None\<rparr>)"

section \<open>Notions the properties are stated with\<close>

text \<open>
  The local variables of \<open>_make_request\<close> after \<open>n\<close> attempts that all reached the retry
  code (lines 83 to 100), with the failure the last of them caught; \<open>None\<close> when one of
  the \<open>n\<close> attempts returned or raised instead.
\<close>

fun retried ::
  "variables \<Rightarrow> (nat \<Rightarrow> attempt_outcome) \<Rightarrow> nat \<Rightarrow>
   (http_response option \<times> json option \<times> request_exception option) option" where
  "retried variables upstream 0 = Some (None, None, None)"
| "retried variables upstream (Suc n) =
     (case retried variables upstream n of
        None \<Rightarrow> None
      | Some (response, data, _) \<Rightarrow>
          (case attempt_step variables response data (upstream n) of
             Retry e response' data' \<Rightarrow> Some (response', data', Some e)
           | _ \<Rightarrow> None))"

text \<open>The linear back-off: 60 seconds times the number of the attempt that failed.\<close>

definition backoff :: "nat \<Rightarrow> int list" where
  "backoff n = map (\<lambda>k. 60 * int k) [1..<Suc n]"

text \<open>The two errors that classify a batch as holding a private or an unknown user.\<close>

definition classification :: "error \<Rightarrow> bool" where
  "classification e =
     (case e of AnilistPrivateUser _ \<Rightarrow> True | AnilistUserNotFound _ \<Rightarrow> True | _ \<Rightarrow> False)"


text \<open>The user keys of the one-key dicts the ratings table holds: the users folded into it.\<close>

definition rated_users :: "ratings \<Rightarrow> string list" where
  "rated_users ratings =
     concat (map (\<lambda>kl. concat (map (\<lambda>x. case x of JObj items \<Rightarrow> map fst items | _ \<Rightarrow> [])
                                   (snd kl)))
               ratings)"

section \<open>Properties of the request executor\<close>

lemma map_snd_enumerate1: "map snd (enumerate1 xs) = xs"
  unfolding enumerate1_def by (rule map_snd_zip) (simp del: upt_Suc)


lemma backoff_Suc: "backoff (Suc n) = backoff n @ [60 * (int n + 1)]"
  by (simp add: backoff_def algebra_simps)

lemma backoff_9: "backoff 9 = [60, 120, 180, 240, 300, 360, 420, 480, 540]"
  by (simp add: backoff_def upt_rec)

lemma retried_loop:
  "retried variables upstream n = Some (response, data, c) \<Longrightarrow> n < max_retries \<Longrightarrow>
   make_request variables upstream =
     make_request_loop variables upstream n response data (backoff n)"
proof (induction n arbitrary: response data c)
  case 0
  then show ?case by (simp add: make_request_def backoff_def)
next
  case (Suc n)
  from Suc.prems(1) obtain r d c' e where
    prev: "retried variables upstream n = Some (r, d, c')" and
    st: "attempt_step variables r d (upstream n) = Retry e response data"
    by (auto split: option.splits step.splits)
  from Suc.prems(2) have n: "n < max_retries" "n < max_retries - 1" by simp_all
  have "make_request variables upstream = make_request_loop variables upstream n r d (backoff n)"
    using Suc.IH[OF prev n(1)] .
  also have "\<dots> = make_request_loop variables upstream (n + 1) response data
                     (backoff n @ [60 * (int n + 1)])"
    using n st by (subst make_request_loop.simps) simp
  finally show ?case by (simp add: backoff_Suc)
qed

lemma make_request_returns:
  assumes "retried variables upstream n = Some (response, data, c)" and "n < 10"
    and "attempt_step variables response data (upstream n) = Return j"
  shows "make_request variables upstream = (Inr j, \<lparr>posted = n + 1, slept = backoff n\<rparr>)"
proof -
  have "make_request variables upstream =
          make_request_loop variables upstream n response data (backoff n)"
    using assms(1,2) by (intro retried_loop[where c = c]) (simp_all add: max_retries_def)
  also have "\<dots> = (Inr j, \<lparr>posted = n + 1, slept = backoff n\<rparr>)"
    using assms(2,3) by (subst make_request_loop.simps) (simp add: max_retries_def)
  finally show ?thesis .
qed

lemma make_request_exhausted:
  assumes "retried variables upstream 10 = Some (response, data, Some e)"
  shows "make_request variables upstream =
           (Inl (AnilistRequestError (Some e)), \<lparr>posted = 10, slept = backoff 9\<rparr>)"
proof -
  have ten: "(10::nat) = Suc 9" by simp
  from assms obtain r d c' where
    prev: "retried variables upstream 9 = Some (r, d, c')" and
    st: "attempt_step variables r d (upstream 9) = Retry e response data"
    unfolding ten retried.simps by (auto split: option.splits step.splits)
  have "make_request variables upstream = make_request_loop variables upstream 9 r d (backoff 9)"
    using prev by (rule retried_loop) (simp add: max_retries_def)
  also have "\<dots> = (Inl (AnilistRequestError (Some e)), \<lparr>posted = 10, slept = backoff 9\<rparr>)"
    using st by (subst make_request_loop.simps) (simp add: max_retries_def)
  finally show ?thesis .
qed

lemma retried_always_500:
  "retried [] (\<lambda>_. Response \<lparr>status_code = 500, body = None\<rparr>) 10 =
     Some (Some \<lparr>status_code = 500, body = None\<rparr>, None, Some (HTTPError 500))"
  by (simp add: eval_nat_numeral attempt_step_def raise_for_status_def except_handler_def)

text \<open>
  Claim C2, as the code has it. Whenever the attempts made so far all reached the retry
  code, \<open>_make_request\<close> has slept 60 seconds times the attempt number after each of them:
  a request that succeeds at attempt \<open>n + 1\<close> (\<open>n < 10\<close>) returns after the sleeps
  60, 120, ..., \<open>60 * n\<close>; when all 10 attempts fail so, it raises \<open>AnilistRequestError\<close>
  wrapping the failure of the 10th attempt, after 10 requests and the 9 sleeps
  60, 120, ..., 540. No sleep follows the 10th failure.
\<close>

theorem make_request_retry_schedule:
  "(retried variables upstream n = Some (response, data, c) \<and> n < 10 \<and>
      attempt_step variables response data (upstream n) = Return j \<longrightarrow>
      make_request variables upstream =
        (Inr j, \<lparr>posted = n + 1, slept = map (\<lambda>k. 60 * int k) [1..<Suc n]\<rparr>)) \<and>
   (retried variables upstream 10 = Some (response', data', Some e) \<longrightarrow>
      make_request variables upstream =
        (Inl (AnilistRequestError (Some e)),
         \<lparr>posted = 10, slept = [60, 120, 180, 240, 300, 360, 420, 480, 540]\<rparr>))"
  using make_request_returns[of variables upstream n response data c j]
    make_request_exhausted[of variables upstream response' data' e]
  by (simp add: backoff_9) (simp add: backoff_def)

theorem make_request_retry_schedule_witness:
  "retried [] (\<lambda>_. Response \<lparr>status_code = 500, body = None\<rparr>) 10 =
     Some (Some \<lparr>status_code = 500, body = None\<rparr>, None, Some (HTTPError 500)) \<and>
   make_request [] (\<lambda>_. Response \<lparr>status_code = 500, body = None\<rparr>) =
     (Inl (AnilistRequestError (Some (HTTPError 500))),
      \<lparr>posted = 10, slept = [60, 120, 180, 240, 300, 360, 420, 480, 540]\<rparr>)"
  using make_request_retry_schedule[of "[]" "\<lambda>_. Response \<lparr>status_code = 500, body = None\<rparr>"
      0 None None None JNull "Some \<lparr>status_code = 500, body = None\<rparr>" None "HTTPError 500"]
    retried_always_500
  by simp

text \<open>
  Claim C2 as stated lists the waits 60s, 120s, ..., 600s. Against a service that answers
  every attempt with status 500, the 10 attempts are separated by 9 sleeps, the longest
  of 540 seconds: the sleeps taken are not the ten of the claim.
\<close>

theorem make_request_backoff_counterexample:
  "slept (snd (make_request [] (\<lambda>_. Response \<lparr>status_code = 500, body = None\<rparr>))) \<noteq>
     [60, 120, 180, 240, 300, 360, 420, 480, 540, 600]"
  using make_request_exhausted[OF retried_always_500] by (simp add: backoff_9)




text \<open>
  Claim C4 fails on the code. The handler of line 67 reads \<open>response\<close> and \<open>data\<close>
  whether or not they were bound: a 404 response whose body is not JSON at the first
  attempt leaves \<open>data\<close> unbound at line 74, and a connection failure at the first attempt
  leaves \<open>response\<close> unbound at line 68. Either way \<open>UnboundLocalError\<close> leaves
  \<open>_make_request\<close> after one request, with no retry; a 404 body \<open>{"errors": []}\<close> lets
  \<open>IndexError\<close> out the same way.
\<close>

theorem make_request_404_not_json_escapes:
  "make_request variables (\<lambda>_. Response \<lparr>status_code = 404, body = None\<rparr>) =
     (Inl UnboundLocalError, \<lparr>posted = 1, slept = []\<rparr>) \<and>
   make_request variables (\<lambda>_. NoResponse) = (Inl UnboundLocalError, \<lparr>posted = 1, slept = []\<rparr>) \<and>
   make_request variables
     (\<lambda>_. Response \<lparr>status_code = 404, body = Some (JObj [(''errors'', JArr [])])\<rparr>) =
     (Inl IndexError, \<lparr>posted = 1, slept = []\<rparr>)"
  by (simp add: make_request_def make_request_loop.simps max_retries_def attempt_step_def
        raise_for_status_def except_handler_def classify_errors_def py_in_def py_getitem_def
        py_getitem0_def)

section \<open>Properties of the pagination crawler\<close>














section \<open>Properties of the result decoder\<close>

lemma key_eq_refl: "key_eq a a"
  by (cases a) (simp_all add: key_eq_def)


































section \<open>Properties of the batch pipeline\<close>

lemma rated_users_append:
  "set (rated_users (ratings_append r k (JObj [(s, v)]))) = insert s (set (rated_users r))"
  unfolding ratings_append_def
  by (induction r) (auto simp: rated_users_def)

lemma rated_users_store_user:
  "set (rated_users (store_user repr u as r)) \<subseteq> insert (py_str repr u) (set (rated_users r))"
  unfolding store_user_def
proof (induction as arbitrary: r)
  case Nil
  then show ?case by auto
next
  case (Cons a as)
  from Cons.IH[of "ratings_append r (py_str repr (mediaId a)) (JObj [(py_str repr u, score a)])"]
  show ?case by (auto simp: rated_users_append)
qed

lemma rated_users_store_batch:
  "set (rated_users (store_batch repr ba r)) \<subseteq> set (rated_users r) \<union> py_str repr ` fst ` set ba"
  unfolding store_batch_def
proof (induction ba arbitrary: r)
  case Nil
  then show ?case by auto
next
  case (Cons p ps)
  from Cons.IH[of "store_user repr (fst p) (snd p) r"] rated_users_store_user[of repr "fst p" "snd p" r]
  show ?case by auto
qed

lemma dict_update_keys: "fst ` set (dict_update k v d) \<subseteq> insert k (fst ` set d)"
  by (induction d) auto

lemma decode_users_key_set:
  "decode_users response ius acc = Inr result \<Longrightarrow>
   fst ` set result \<subseteq> fst ` set acc \<union> snd ` set ius"
proof (induction ius arbitrary: acc)
  case Nil
  then show ?case by simp
next
  case (Cons iu rest)
  show ?case
  proof (cases "user_data_of response (fst iu)")
    case (Inl e)
    with Cons.prems show ?thesis by simp
  next
    case (Inr d)
    show ?thesis
    proof (cases "d = JNull")
      case True
      with Inr Cons.prems have "decode_users response rest acc = Inr result" by simp
      from Cons.IH[OF this] show ?thesis by auto
    next
      case False
      with Inr Cons.prems obtain entries where
        acc': "decode_users response rest (dict_update (snd iu) entries acc) = Inr result"
        by (auto simp: try_bind_def dict_set_def split: sum.splits if_splits)
      from Cons.IH[OF acc'] dict_update_keys[of "snd iu" entries acc] show ?thesis
        by auto
    qed
  qed
qed

lemma fetchCompletedAnime_keys:
  assumes "fetchCompletedAnime JNull (JArr batch) up = Inr ba"
  shows "fst ` set ba \<subseteq> set batch"
proof -
  from assms obtain response where "decode_users response (enumerate1 batch) [] = Inr ba"
    by (auto simp: fetchCompletedAnime_def py_truthy_def py_iter_def split: sum.splits)
  from decode_users_key_set[OF this] have "fst ` set ba \<subseteq> set (map snd (enumerate1 batch))"
    by simp
  then show ?thesis by (simp only: map_snd_enumerate1)
qed

lemma slice_subset: "set (slice xs a (end_idx b bs (length xs))) \<subseteq> set (take ((b + 1) * bs) xs)"
proof -
  have "slice xs a (end_idx b bs (length xs)) = drop a (take (end_idx b bs (length xs)) xs)"
    by (simp add: slice_def drop_take)
  also have "take (end_idx b bs (length xs)) xs = take ((b + 1) * bs) xs"
    by (simp add: end_idx_def min_def)
  finally show ?thesis by (simp add: set_drop_subset)
qed


lemma fetch_loop_done:
  "n \<le> batch_num \<Longrightarrow>
   fetch_loop repr user_ids bs n upstream batch_num ratings =
     \<lparr>yielded = [], final_ratings = ratings, stopped_at = None, raised = None\<rparr>"
  by (subst fetch_loop.simps) simp

lemma fetch_loop_error:
  assumes "batch_num < n"
    and "fetchCompletedAnime JNull
           (JArr (slice user_ids (batch_num * bs) (end_idx batch_num bs (length user_ids))))
           (upstream batch_num) = Inl e"
  shows "fetch_loop repr user_ids bs n upstream batch_num ratings =
     (if classification e
      then fetch_loop repr user_ids bs n upstream (batch_num + 1) ratings
      else \<lparr>yielded = [], final_ratings = ratings,
             stopped_at = (case e of AnilistRequestError _ \<Rightarrow> Some batch_num | _ \<Rightarrow> None),
             raised = (case e of AnilistRequestError _ \<Rightarrow> None | _ \<Rightarrow> Some e)\<rparr>)"
  using assms
  by (subst fetch_loop.simps, cases e) (simp_all add: Let_def classification_def)

lemma fetch_loop_ok:
  assumes "batch_num < n"
    and "fetchCompletedAnime JNull
           (JArr (slice user_ids (batch_num * bs) (end_idx batch_num bs (length user_ids))))
           (upstream batch_num) = Inr batch_anime"
  shows "fetch_loop repr user_ids bs n upstream batch_num ratings =
     (if (batch_num + 1) mod 20 = 0 \<or> batch_num = n - 1
      then (fetch_loop repr user_ids bs n upstream (batch_num + 1)
              (store_batch repr batch_anime ratings))
           \<lparr>yielded :=
              (store_batch repr batch_anime ratings,
               drop (end_idx batch_num bs (length user_ids)) user_ids, batch_num) #
              yielded (fetch_loop repr user_ids bs n upstream (batch_num + 1)
                         (store_batch repr batch_anime ratings))\<rparr>
      else fetch_loop repr user_ids bs n upstream (batch_num + 1)
             (store_batch repr batch_anime ratings))"
  using assms by (subst fetch_loop.simps) (simp add: Let_def)


lemma fetch_loop_yields:
  "set (rated_users ratings) \<subseteq> py_str repr ` set (take (batch_num * bs) user_ids) \<Longrightarrow>
   (r, rem, b) \<in> set (yielded (fetch_loop repr user_ids bs n upstream batch_num ratings)) \<Longrightarrow>
   rem = drop (end_idx b bs (length user_ids)) user_ids \<and>
   set (rated_users r) \<subseteq> py_str repr ` set (take ((b + 1) * bs) user_ids)"
proof (induction "n - batch_num" arbitrary: batch_num ratings)
  case 0
  then show ?case by (simp add: fetch_loop_done)
next
  case (Suc k)
  then have lt: "batch_num < n" and k: "k = n - (batch_num + 1)" by simp_all
  have mono: "set (take (batch_num * bs) user_ids) \<subseteq> set (take ((batch_num + 1) * bs) user_ids)"
    by (rule set_take_subset_set_take) simp
  show ?case
  proof (cases "fetchCompletedAnime JNull
     (JArr (slice user_ids (batch_num * bs) (end_idx batch_num bs (length user_ids))))
     (upstream batch_num)")
    case (Inl e)
    note eq = fetch_loop_error[where upstream = upstream and batch_num = batch_num and repr = repr
        and ratings = ratings, OF lt Inl]
    show ?thesis
    proof (cases "classification e")
      case True
      have inv: "set (rated_users ratings) \<subseteq>
                   py_str repr ` set (take ((batch_num + 1) * bs) user_ids)"
        using Suc.prems(1) image_mono[OF mono, of "py_str repr"] by (rule subset_trans)
      from Suc.prems(2) True have
        "(r, rem, b) \<in> set (yielded (fetch_loop repr user_ids bs n upstream (batch_num + 1) ratings))"
        by (simp add: eq)
      with Suc.hyps(1)[OF k inv] show ?thesis by simp
    next
      case False
      with Suc.prems(2) show ?thesis by (simp add: eq)
    qed
  next
    case (Inr batch_anime)
    note eq = fetch_loop_ok[where upstream = upstream and batch_num = batch_num and repr = repr
        and ratings = ratings, OF lt Inr]
    let ?r' = "store_batch repr batch_anime ratings"
    let ?more = "fetch_loop repr user_ids bs n upstream (batch_num + 1) ?r'"
    have "fst ` set batch_anime \<subseteq> set (take ((batch_num + 1) * bs) user_ids)"
      using fetchCompletedAnime_keys[OF Inr] slice_subset[of user_ids "batch_num * bs" batch_num bs]
      by (rule subset_trans)
    then have a: "py_str repr ` fst ` set batch_anime \<subseteq>
                 py_str repr ` set (take ((batch_num + 1) * bs) user_ids)"
      by (rule image_mono)
    have b: "set (rated_users ratings) \<subseteq>
                 py_str repr ` set (take ((batch_num + 1) * bs) user_ids)"
      using Suc.prems(1) image_mono[OF mono, of "py_str repr"] by (rule subset_trans)
    have inv: "set (rated_users ?r') \<subseteq>
                 py_str repr ` set (take ((batch_num + 1) * bs) user_ids)"
      using rated_users_store_batch[of repr batch_anime ratings] Un_least[OF b a]
      by (rule subset_trans)
    from Suc.prems(2) have
      "(r, rem, b) = (?r', drop (end_idx batch_num bs (length user_ids)) user_ids, batch_num) \<or>
       (r, rem, b) \<in> set (yielded ?more)"
      by (simp add: eq split: if_splits)
    then show ?thesis
    proof
      assume "(r, rem, b) = (?r', drop (end_idx batch_num bs (length user_ids)) user_ids, batch_num)"
      with inv show ?thesis by simp
    next
      assume "(r, rem, b) \<in> set (yielded ?more)"
      with Suc.hyps(1)[OF k inv] show ?thesis by simp
    qed
  qed
qed

text \<open>
  Claim C8, as the code has it. For every triple the pipeline yields, \<open>remaining_users\<close>
  is the suffix of the input list after the batch the triple names, and every user with
  an entry folded into the triple's ratings is a user of the prefix before that suffix.
  When the ids of the input list are pairwise distinct as \<open>str\<close> renders them,
  \<open>remaining_users\<close> therefore holds none of the users folded into the ratings.
\<close>

theorem fetch_and_store_ratings_remaining_users:
  assumes "(r, rem, b) \<in> set (yielded (fetch_and_store_ratings repr user_ids upstream bsz))"
  shows "rem = drop (end_idx b (nat bsz) (length user_ids)) user_ids \<and>
         set (rated_users r) \<subseteq>
           py_str repr ` set (take (end_idx b (nat bsz) (length user_ids)) user_ids) \<and>
         (distinct (map (py_str repr) user_ids) \<longrightarrow>
            set (rated_users r) \<inter> py_str repr ` set rem = {})"
proof -
  let ?m = "end_idx b (nat bsz) (length user_ids)"
  from assms obtain n where
    y: "(r, rem, b) \<in> set (yielded (fetch_loop repr user_ids (nat bsz) n upstream 0 []))"
    by (auto simp: fetch_and_store_ratings_def split: sum.splits)
  have "set (rated_users []) \<subseteq> py_str repr ` set (take (0 * nat bsz) user_ids)"
    by (simp add: rated_users_def)
  from fetch_loop_yields[OF this y] have
    rem: "rem = drop ?m user_ids" and
    sub': "set (rated_users r) \<subseteq> py_str repr ` set (take ((b + 1) * nat bsz) user_ids)"
    by simp_all
  have "take ((b + 1) * nat bsz) user_ids = take ?m user_ids"
    by (simp add: end_idx_def min_def)
  with sub' have sub: "set (rated_users r) \<subseteq> py_str repr ` set (take ?m user_ids)"
    by simp
  have dis: "set (rated_users r) \<inter> py_str repr ` set rem = {}"
    if d: "distinct (map (py_str repr) user_ids)"
  proof -
    have "distinct (map (py_str repr) (take ?m user_ids @ drop ?m user_ids))"
      using d by simp
    then have "py_str repr ` set (take ?m user_ids) \<inter> py_str repr ` set (drop ?m user_ids) = {}"
      unfolding map_append distinct_append by simp
    with sub show ?thesis unfolding rem by blast
  qed
  show ?thesis
    using rem sub dis by (intro conjI impI) simp_all
qed


lemma yielded_twenty_one_sevens:
  "hd (yielded (fetch_and_store_ratings (\<lambda>_. []) (replicate 21 (JNum 7))
     (\<lambda>b k. Response \<lparr>status_code = 200, body = Some (JObj [(''data'', JObj
        [(''u1'', JObj [(''lists'', JArr [JObj [(''entries'', JArr
            [JObj [(''mediaId'', JNum 1),
                   (''media'', JObj [(''title'', JObj [(''romaji'', JStr ''A'')])]),
                   (''score'', JNum 80)]])]])])])])\<rparr>) 1)) =
   ([(''1'', replicate 20 (JObj [(''7'', JNum 80)]))], [JNum 7], 19)"
  by code_simp

lemma yielded_two_users:
  "yielded (fetch_and_store_ratings (\<lambda>_. []) [JNum 5, JNum 6]
     (\<lambda>b k. Response \<lparr>status_code = 200, body = Some (JObj [(''data'', JObj
        [(''u1'', JObj [(''lists'', JArr [JObj [(''entries'', JArr
            [JObj [(''mediaId'', JNum 1),
                   (''media'', JObj [(''title'', JObj [(''romaji'', JStr ''A'')])]),
                   (''score'', JNum 80)]])]])]),
         (''u2'', JNull)])])\<rparr>) 2) =
   [([(''1'', [JObj [(''5'', JNum 80)]])], [], 0)]"
  by code_simp

theorem fetch_and_store_ratings_remaining_users_witness:
  "([(''1'', [JObj [(''5'', JNum 80)]])], [], 0) \<in>
     set (yielded (fetch_and_store_ratings (\<lambda>_. []) [JNum 5, JNum 6]
       (\<lambda>b k. Response \<lparr>status_code = 200, body = Some (JObj [(''data'', JObj
          [(''u1'', JObj [(''lists'', JArr [JObj [(''entries'', JArr
              [JObj [(''mediaId'', JNum 1),
                     (''media'', JObj [(''title'', JObj [(''romaji'', JStr ''A'')])]),
                     (''score'', JNum 80)]])]])]),
           (''u2'', JNull)])])\<rparr>) 2)) \<and>
   [] = drop (end_idx 0 (nat 2) (length [JNum 5, JNum 6])) [JNum 5, JNum 6] \<and>
   set (rated_users [(''1'', [JObj [(''5'', JNum 80)]])]) \<subseteq>
     py_str (\<lambda>_. []) ` set (take (end_idx 0 (nat 2) (length [JNum 5, JNum 6])) [JNum 5, JNum 6])"
proof -
  have y: "([(''1'', [JObj [(''5'', JNum 80)]])], [], 0) \<in>
     set (yielded (fetch_and_store_ratings (\<lambda>_. []) [JNum 5, JNum 6]
       (\<lambda>b k. Response \<lparr>status_code = 200, body = Some (JObj [(''data'', JObj
          [(''u1'', JObj [(''lists'', JArr [JObj [(''entries'', JArr
              [JObj [(''mediaId'', JNum 1),
                     (''media'', JObj [(''title'', JObj [(''romaji'', JStr ''A'')])]),
                     (''score'', JNum 80)]])]])]),
           (''u2'', JNull)])])\<rparr>) 2))"
    by (simp add: yielded_two_users)
  from fetch_and_store_ratings_remaining_users[OF y] y show ?thesis by blast
qed

text \<open>
  Claim C8 as stated covers every input list. With the id 7 listed 21 times and one user
  a batch, the triple yielded after batch 20 (index 19) has folded 20 entries of user 7
  into the ratings and still lists user 7 among the remaining users.
\<close>

theorem fetch_and_store_ratings_duplicate_ids_counterexample:
  "JNum 7 \<in> set (fst (snd (hd (yielded (fetch_and_store_ratings (\<lambda>_. []) (replicate 21 (JNum 7))
     (\<lambda>b k. Response \<lparr>status_code = 200, body = Some (JObj [(''data'', JObj
        [(''u1'', JObj [(''lists'', JArr [JObj [(''entries'', JArr
            [JObj [(''mediaId'', JNum 1),
                   (''media'', JObj [(''title'', JObj [(''romaji'', JStr ''A'')])]),
                   (''score'', JNum 80)]])]])])])])\<rparr>) 1))))) \<and>
   py_str (\<lambda>_. []) (JNum 7) \<in> set (rated_users (fst (hd (yielded
     (fetch_and_store_ratings (\<lambda>_. []) (replicate 21 (JNum 7))
     (\<lambda>b k. Response \<lparr>status_code = 200, body = Some (JObj [(''data'', JObj
        [(''u1'', JObj [(''lists'', JArr [JObj [(''entries'', JArr
            [JObj [(''mediaId'', JNum 1),
                   (''media'', JObj [(''title'', JObj [(''romaji'', JStr ''A'')])]),
                   (''score'', JNum 80)]])]])])])])\<rparr>) 1)))))"
proof -
  have s7: "show_int 7 = ''7''" by code_simp
  show ?thesis
    unfolding yielded_twenty_one_sevens
    by (simp add: rated_users_def py_str_def s7)
qed

lemma fetch_loop_stopped:
  "stopped_at (fetch_loop repr user_ids bs n upstream batch_num ratings) = Some b \<Longrightarrow>
   batch_num \<le> b \<and>
   raised (fetch_loop repr user_ids bs n upstream batch_num ratings) = None \<and>
   (\<forall>y \<in> set (yielded (fetch_loop repr user_ids bs n upstream batch_num ratings)).
      snd (snd y) < b)"
proof (induction "n - batch_num" arbitrary: batch_num ratings)
  case 0
  then show ?case by (simp add: fetch_loop_done)
next
  case (Suc k)
  then have lt: "batch_num < n" and k: "k = n - (batch_num + 1)" by simp_all
  show ?case
  proof (cases "fetchCompletedAnime JNull
     (JArr (slice user_ids (batch_num * bs) (end_idx batch_num bs (length user_ids))))
     (upstream batch_num)")
    case (Inl e)
    note eq = fetch_loop_error[where upstream = upstream and batch_num = batch_num and repr = repr
        and ratings = ratings, OF lt Inl]
    show ?thesis
    proof (cases "classification e")
      case True
      with Suc.prems have
        "stopped_at (fetch_loop repr user_ids bs n upstream (batch_num + 1) ratings) = Some b"
        by (simp add: eq)
      from Suc.hyps(1)[OF k this] True show ?thesis by (simp add: eq)
    next
      case False
      with Suc.prems show ?thesis unfolding eq by (cases e) simp_all
    qed
  next
    case (Inr batch_anime)
    note eq = fetch_loop_ok[where upstream = upstream and batch_num = batch_num and repr = repr
        and ratings = ratings, OF lt Inr]
    from Suc.prems have
      "stopped_at (fetch_loop repr user_ids bs n upstream (batch_num + 1)
                     (store_batch repr batch_anime ratings)) = Some b"
      by (simp add: eq split: if_splits)
    from Suc.hyps(1)[OF k this] show ?thesis by (simp add: eq)
  qed
qed

lemma fetch_loop_request_error:
  assumes "batch_num < n"
    and "fetchCompletedAnime JNull
           (JArr (slice user_ids (batch_num * bs) (end_idx batch_num bs (length user_ids))))
           (upstream batch_num) = Inl (AnilistRequestError c)"
  shows "fetch_loop repr user_ids bs n upstream batch_num ratings =
           \<lparr>yielded = [], final_ratings = ratings, stopped_at = Some batch_num, raised = None\<rparr>"
  using fetch_loop_error[where upstream = upstream and batch_num = batch_num and repr = repr
        and ratings = ratings, OF assms]
  by (simp add: classification_def)

text \<open>
  Claim C1, as the code has it. A \<open>AnilistRequestError\<close> raised by the fetch of a batch
  is caught inside the pipeline (line 39): the generator returns there, with no triple for
  that batch, and no exception leaves it. When a run of the pipeline has stopped so at
  batch \<open>b\<close>, every triple it yielded is of an earlier batch, and \<open>main\<close> goes on after
  the loop as for a complete run: it writes the result file from the ratings it holds and
  returns, so the process exits with status 0. No other file changes after the last
  triple was handled: a checkpoint file other than the result file keeps the last
  checkpoint saved.
\<close>

theorem request_error_stops_pipeline_quietly:
  "(batch_num < n \<and>
    fetchCompletedAnime JNull
      (JArr (slice user_ids (batch_num * bs) (end_idx batch_num bs (length user_ids))))
      (upstream batch_num) = Inl (AnilistRequestError c) \<longrightarrow>
      fetch_loop repr user_ids bs n upstream batch_num ratings0 =
        \<lparr>yielded = [], final_ratings = ratings0, stopped_at = Some batch_num, raised = None\<rparr>) \<and>
   (stopped_at (fetch_and_store_ratings repr user_ids upstream (batch_size a)) = Some b \<longrightarrow>
      raised (fetch_and_store_ratings repr user_ids upstream (batch_size a)) = None \<and>
      (\<forall>y \<in> set (yielded (fetch_and_store_ratings repr user_ids upstream (batch_size a))).
         snd (snd y) < b) \<and>
      uncaught (main repr a ratings user_ids fs upstream) = None \<and>
      exit_status (main repr a ratings user_ids fs upstream) = 0 \<and>
      files_left (main repr a ratings user_ids fs upstream) (ratings_out a) =
        Some (Document (JObj
          (resolve_shared (fetch_and_store_ratings repr user_ids upstream (batch_size a))
             (fst (foldl (on_yield a) (ratings, fs)
                (yielded (fetch_and_store_ratings repr user_ids upstream (batch_size a)))))))) \<and>
      (\<forall>file. file \<noteq> ratings_out a \<longrightarrow>
         files_left (main repr a ratings user_ids fs upstream) file =
           snd (foldl (on_yield a) (ratings, fs)
             (yielded (fetch_and_store_ratings repr user_ids upstream (batch_size a)))) file))"
proof (intro conjI impI)
  assume "batch_num < n \<and>
    fetchCompletedAnime JNull
      (JArr (slice user_ids (batch_num * bs) (end_idx batch_num bs (length user_ids))))
      (upstream batch_num) = Inl (AnilistRequestError c)"
  then show "fetch_loop repr user_ids bs n upstream batch_num ratings0 =
        \<lparr>yielded = [], final_ratings = ratings0, stopped_at = Some batch_num, raised = None\<rparr>"
    using fetch_loop_request_error by blast
next
  let ?run = "fetch_and_store_ratings repr user_ids upstream (batch_size a)"
  let ?st = "foldl (on_yield a) (ratings, fs) (yielded ?run)"
  assume st: "stopped_at ?run = Some b"
  then obtain n' where
    run: "?run = fetch_loop repr user_ids (nat (batch_size a)) n' upstream 0 []"
    by (auto simp: fetch_and_store_ratings_def split: sum.splits)
  from st fetch_loop_stopped[of repr user_ids "nat (batch_size a)" n' upstream 0 "[]" b]
  have r: "raised ?run = None" and y: "\<forall>y \<in> set (yielded ?run). snd (snd y) < b"
    unfolding run by simp_all
  from r have m: "main repr a ratings user_ids fs upstream =
     \<lparr>files_left = save_results (resolve_shared ?run (fst ?st)) (ratings_out a) (snd ?st),
      uncaught = None\<rparr>"
    by (simp add: main_def Let_def)
  show "raised ?run = None" by (rule r)
  show "\<forall>y \<in> set (yielded ?run). snd (snd y) < b" by (rule y)
  show "uncaught (main repr a ratings user_ids fs upstream) = None" by (simp add: m)
  show "exit_status (main repr a ratings user_ids fs upstream) = 0"
    by (simp add: m exit_status_def)
  show "files_left (main repr a ratings user_ids fs upstream) (ratings_out a) =
        Some (Document (JObj (resolve_shared ?run (fst ?st))))"
    by (simp add: m save_results_def)
  show "\<forall>file. file \<noteq> ratings_out a \<longrightarrow>
         files_left (main repr a ratings user_ids fs upstream) file = snd ?st file"
    by (simp add: m save_results_def)
qed

lemma stopped_at_second_batch:
  "stopped_at (fetch_and_store_ratings (\<lambda>_. []) [JNum 1, JNum 2]
     (\<lambda>b k. if b = 0
        then Response \<lparr>status_code = 200, body = Some (JObj [(''data'', JObj
          [(''u1'', JObj [(''lists'', JArr [JObj [(''entries'', JArr
              [JObj [(''mediaId'', JNum 1),
                     (''media'', JObj [(''title'', JObj [(''romaji'', JStr ''A'')])]),
                     (''score'', JNum 80)]])]])])])])\<rparr>
        else Response \<lparr>status_code = 500, body = None\<rparr>) 1) = Some 1"
  by code_simp

theorem request_error_stops_pipeline_quietly_witness:
  "stopped_at (fetch_and_store_ratings (\<lambda>_. []) [JNum 1, JNum 2]
     (\<lambda>b k. if b = 0
        then Response \<lparr>status_code = 200, body = Some (JObj [(''data'', JObj
          [(''u1'', JObj [(''lists'', JArr [JObj [(''entries'', JArr
              [JObj [(''mediaId'', JNum 1),
                     (''media'', JObj [(''title'', JObj [(''romaji'', JStr ''A'')])]),
                     (''score'', JNum 80)]])]])])])])\<rparr>
        else Response \<lparr>status_code = 500, body = None\<rparr>) 1) = Some 1 \<and>
   exit_status (main (\<lambda>_. [])
     \<lparr>checkpoint_file = None, ratings_out = ''ratings.json'', batch_size = 1\<rparr> [] [JNum 1, JNum 2]
     Map.empty
     (\<lambda>b k. if b = 0
        then Response \<lparr>status_code = 200, body = Some (JObj [(''data'', JObj
          [(''u1'', JObj [(''lists'', JArr [JObj [(''entries'', JArr
              [JObj [(''mediaId'', JNum 1),
                     (''media'', JObj [(''title'', JObj [(''romaji'', JStr ''A'')])]),
                     (''score'', JNum 80)]])]])])])])\<rparr>
        else Response \<lparr>status_code = 500, body = None\<rparr>)) = 0"
  using request_error_stops_pipeline_quietly[where repr = "\<lambda>_. []"
      and user_ids = "[JNum 1, JNum 2]"
      and upstream = "\<lambda>b k. if b = 0
        then Response \<lparr>status_code = 200, body = Some (JObj [(''data'', JObj
          [(''u1'', JObj [(''lists'', JArr [JObj [(''entries'', JArr
              [JObj [(''mediaId'', JNum 1),
                     (''media'', JObj [(''title'', JObj [(''romaji'', JStr ''A'')])]),
                     (''score'', JNum 80)]])]])])])])\<rparr>
        else Response \<lparr>status_code = 500, body = None\<rparr>"
      and a = "\<lparr>checkpoint_file = None, ratings_out = ''ratings.json'', batch_size = 1\<rparr>"
      and b = 1 and ratings = "[]" and fs = Map.empty]
    stopped_at_second_batch
  by simp

text \<open>
  Claim C1 as stated has the error reach the top level, the process exit with a
  non-zero status and the result file written by a complete run only. With one user and
  a service that answers every attempt with status 500, the only batch ends in
  \<open>AnilistRequestError\<close>; \<open>main\<close> still writes the result file, holding no rating, and the
  process exits with status 0.
\<close>

theorem main_request_error_counterexample:
  "exit_status (main (\<lambda>_. [])
     \<lparr>checkpoint_file = None, ratings_out = ''ratings.json'', batch_size = 1\<rparr> [] [JNum 1] Map.empty
     (\<lambda>b k. Response \<lparr>status_code = 500, body = None\<rparr>)) = 0 \<and>
   files_left (main (\<lambda>_. [])
     \<lparr>checkpoint_file = None, ratings_out = ''ratings.json'', batch_size = 1\<rparr> [] [JNum 1] Map.empty
     (\<lambda>b k. Response \<lparr>status_code = 500, body = None\<rparr>)) ''ratings.json'' =
     Some (Document (JObj []))"
  by code_simp

text \<open>
  Claim C9. Loading the file \<open>save_checkpoint\<close> has written gives back the triple that
  was saved: the ratings, the remaining users and the last batch.
\<close>

theorem checkpoint_round_trip:
  "load_checkpoint (save_checkpoint ratings remaining_users last_batch file fs) file =
     Modelled (Inr (Some (ratings, remaining_users, last_batch)))"
  by (simp add: load_checkpoint_def save_checkpoint_def py_getitem_def defaultdict_list_def
        try_bind_def)

end
